theory Spec2Isabelle
  imports Main
begin

section \<open>Static device properties by SM architecture (cub/arch\_device\_props.cuh)\<close>

subsection \<open>The compiler pass: \<open>CUB_PTX_ARCH\<close> and \<open>CNP_ENABLED\<close>\<close>

text \<open>
  The preprocessor symbol \<open>__CUDA_ARCH__\<close> is either undefined (host pass) or defined
  to an integer (device pass). It is modelled as an \<open>int option\<close>.
  \<^verbatim>\<open>
  #ifndef __CUDA_ARCH__
      #define CUB_PTX_ARCH 0
  #else
      #define CUB_PTX_ARCH __CUDA_ARCH__
  #endif
  #define CNP_ENABLED ((CUB_PTX_ARCH == 0) || (CUB_PTX_ARCH >= 350))
  \<close>
\<close>

definition CUB_PTX_ARCH :: "int option \<Rightarrow> int" where
  "CUB_PTX_ARCH cuda_arch = (case cuda_arch of None \<Rightarrow> 0 | Some a \<Rightarrow> a)"

definition CNP_ENABLED :: "int option \<Rightarrow> bool" where
  "CNP_ENABLED cuda_arch = ((CUB_PTX_ARCH cuda_arch = 0) \<or> (CUB_PTX_ARCH cuda_arch \<ge> 350))"

subsection \<open>The enumerators of one architecture\<close>

record DeviceProps =
  LOG_WARP_THREADS :: int
  WARP_THREADS :: int
  LOG_SMEM_BANKS :: int
  SMEM_BANKS :: int
  SMEM_BANK_BYTES :: int
  SMEM_BYTES :: int
  SMEM_ALLOC_UNIT :: int
  REGS_BY_BLOCK :: bool
  REG_ALLOC_UNIT :: int
  WARP_ALLOC_UNIT :: int
  MAX_SM_THREADS :: int
  MAX_SM_THREADBLOCKS :: int
  MAX_BLOCK_THREADS :: int
  MAX_SM_REGISTERS :: int

text \<open>
  The four explicit specialisations that have an \<open>enum\<close> body. The two derived
  enumerators are written as in the source, \<open>1 << LOG_...\<close>.
\<close>

definition SM30 :: DeviceProps where
  "SM30 = (let log_warp_threads = 5; log_smem_banks = 5 in
     \<lparr> LOG_WARP_THREADS = log_warp_threads,
       WARP_THREADS = push_bit (nat log_warp_threads) 1,
       LOG_SMEM_BANKS = log_smem_banks,
       SMEM_BANKS = push_bit (nat log_smem_banks) 1,
       SMEM_BANK_BYTES = 4,
       SMEM_BYTES = 48 * 1024,
       SMEM_ALLOC_UNIT = 256,
       REGS_BY_BLOCK = False,
       REG_ALLOC_UNIT = 256,
       WARP_ALLOC_UNIT = 4,
       MAX_SM_THREADS = 2048,
       MAX_SM_THREADBLOCKS = 16,
       MAX_BLOCK_THREADS = 1024,
       MAX_SM_REGISTERS = 64 * 1024 \<rparr>)"

definition SM20 :: DeviceProps where
  "SM20 = (let log_warp_threads = 5; log_smem_banks = 5 in
     \<lparr> LOG_WARP_THREADS = log_warp_threads,
       WARP_THREADS = push_bit (nat log_warp_threads) 1,
       LOG_SMEM_BANKS = log_smem_banks,
       SMEM_BANKS = push_bit (nat log_smem_banks) 1,
       SMEM_BANK_BYTES = 4,
       SMEM_BYTES = 48 * 1024,
       SMEM_ALLOC_UNIT = 128,
       REGS_BY_BLOCK = False,
       REG_ALLOC_UNIT = 64,
       WARP_ALLOC_UNIT = 2,
       MAX_SM_THREADS = 1536,
       MAX_SM_THREADBLOCKS = 8,
       MAX_BLOCK_THREADS = 1024,
       MAX_SM_REGISTERS = 32 * 1024 \<rparr>)"

definition SM12 :: DeviceProps where
  "SM12 = (let log_warp_threads = 5; log_smem_banks = 4 in
     \<lparr> LOG_WARP_THREADS = log_warp_threads,
       WARP_THREADS = push_bit (nat log_warp_threads) 1,
       LOG_SMEM_BANKS = log_smem_banks,
       SMEM_BANKS = push_bit (nat log_smem_banks) 1,
       SMEM_BANK_BYTES = 4,
       SMEM_BYTES = 16 * 1024,
       SMEM_ALLOC_UNIT = 512,
       REGS_BY_BLOCK = True,
       REG_ALLOC_UNIT = 512,
       WARP_ALLOC_UNIT = 2,
       MAX_SM_THREADS = 1024,
       MAX_SM_THREADBLOCKS = 8,
       MAX_BLOCK_THREADS = 512,
       MAX_SM_REGISTERS = 16 * 1024 \<rparr>)"

definition SM10 :: DeviceProps where
  "SM10 = (let log_warp_threads = 5; log_smem_banks = 4 in
     \<lparr> LOG_WARP_THREADS = log_warp_threads,
       WARP_THREADS = push_bit (nat log_warp_threads) 1,
       LOG_SMEM_BANKS = log_smem_banks,
       SMEM_BANKS = push_bit (nat log_smem_banks) 1,
       SMEM_BANK_BYTES = 4,
       SMEM_BYTES = 16 * 1024,
       SMEM_ALLOC_UNIT = 512,
       REGS_BY_BLOCK = True,
       REG_ALLOC_UNIT = 256,
       WARP_ALLOC_UNIT = 2,
       MAX_SM_THREADS = 768,
       MAX_SM_THREADBLOCKS = 8,
       MAX_BLOCK_THREADS = 512,
       MAX_SM_REGISTERS = 8 * 1024 \<rparr>)"

subsection \<open>The class template \<open>ArchDeviceProps<SM_ARCH>\<close>\<close>

text \<open>
  Every instance of the template is declared in one of two ways: with a body of its
  own (the specialisations for 300, 200, 120 and 100), or empty and derived from another
  instance (the specialisations for 350, 210, 130 and 110, and the primary template,
  which derives every other \<open>SM_ARCH\<close> from \<open>ArchDeviceProps<100>\<close>).
\<close>

datatype struct_body = Members DeviceProps | Derives int

definition ArchDeviceProps_body :: "int \<Rightarrow> struct_body" where
  "ArchDeviceProps_body SM_ARCH =
     (if SM_ARCH = 300 then Members SM30
      else if SM_ARCH = 200 then Members SM20
      else if SM_ARCH = 120 then Members SM12
      else if SM_ARCH = 100 then Members SM10
      else if SM_ARCH = 350 then Derives 300
      else if SM_ARCH = 210 then Derives 200
      else if SM_ARCH = 130 then Derives 120
      else if SM_ARCH = 110 then Derives 100
      else Derives 100)"

text \<open>
  Member lookup in \<open>ArchDeviceProps<SM_ARCH>\<close>: the class's own members if it has a
  body, its base class's members otherwise. The result names the specialisation that
  supplies the members (the class that the injected name \<open>ArchDeviceProps\<close> denotes
  inside \<open>Callback\<close>) together with its enumerators.
\<close>

function ArchDeviceProps :: "int \<Rightarrow> int \<times> DeviceProps" where
  "ArchDeviceProps SM_ARCH =
     (case ArchDeviceProps_body SM_ARCH of
        Members props \<Rightarrow> (SM_ARCH, props)
      | Derives base \<Rightarrow> ArchDeviceProps base)"
  by pat_completeness auto
termination
  by (relation "measure (\<lambda>n. case ArchDeviceProps_body n of Members _ \<Rightarrow> 0 | Derives _ \<Rightarrow> 1)")
     (auto simp: ArchDeviceProps_body_def split: if_splits)

declare ArchDeviceProps.simps [simp del]

text \<open>
  \<^verbatim>\<open>struct PtxDeviceProps : ArchDeviceProps<CUB_PTX_ARCH> {};\<close>
\<close>

definition PtxDeviceProps :: "int option \<Rightarrow> int \<times> DeviceProps" where
  "PtxDeviceProps cuda_arch = ArchDeviceProps (CUB_PTX_ARCH cuda_arch)"

subsection \<open>The callback utility\<close>

text \<open>
  \<open>Callback(T &target, int sm_version)\<close> ends in the call
  \<open>target.template Callback<ArchDeviceProps>()\<close>, a member template of the caller's
  class \<open>T\<close> that may change \<open>target\<close>. The caller's member template is the
  parameter \<open>op\<close>: it is given the template argument (the architecture of the
  specialisation passed as type), the list of function arguments of the call (empty in
  every call of the source), and the target, and returns the target after the call.
\<close>

type_synonym 't target_callback = "int \<Rightarrow> int list \<Rightarrow> 't \<Rightarrow> 't"

definition Callback_300 :: "'t target_callback \<Rightarrow> 't \<Rightarrow> int \<Rightarrow> 't" where
  "Callback_300 op target sm_version = op 300 [] target"

definition Callback_200 :: "'t target_callback \<Rightarrow> 't \<Rightarrow> int \<Rightarrow> 't" where
  "Callback_200 op target sm_version =
     (if sm_version > 200 then Callback_300 op target sm_version
      else op 200 [] target)"

definition Callback_120 :: "'t target_callback \<Rightarrow> 't \<Rightarrow> int \<Rightarrow> 't" where
  "Callback_120 op target sm_version =
     (if sm_version > 120 then Callback_200 op target sm_version
      else op 120 [] target)"

definition Callback_100 :: "'t target_callback \<Rightarrow> 't \<Rightarrow> int \<Rightarrow> 't" where
  "Callback_100 op target sm_version =
     (if sm_version > 100 then Callback_120 op target sm_version
      else op 100 [] target)"

text \<open>
  \<open>ArchDeviceProps<SM_ARCH>::Callback\<close> for any \<open>SM_ARCH\<close>: the member of the
  specialisation that supplies the members.
\<close>

definition Callback :: "int \<Rightarrow> 't target_callback \<Rightarrow> 't \<Rightarrow> int \<Rightarrow> 't" where
  "Callback SM_ARCH op target sm_version =
     (let defining = fst (ArchDeviceProps SM_ARCH) in
      if defining = 300 then Callback_300 op target sm_version
      else if defining = 200 then Callback_200 op target sm_version
      else if defining = 120 then Callback_120 op target sm_version
      else Callback_100 op target sm_version)"

text \<open>
  A target for observing the calls: its \<open>Callback\<close> appends the template argument and
  the function arguments it was called with to a log.
\<close>

definition record_call :: "(int \<times> int list) list target_callback" where
  "record_call arch args log = log @ [(arch, args)]"

section \<open>Properties\<close>

lemma ArchDeviceProps_explicit:
  "ArchDeviceProps 300 = (300, SM30)"
  "ArchDeviceProps 200 = (200, SM20)"
  "ArchDeviceProps 120 = (120, SM12)"
  "ArchDeviceProps 100 = (100, SM10)"
  by (simp_all add: ArchDeviceProps.simps ArchDeviceProps_body_def)

lemma ArchDeviceProps_derived:
  "ArchDeviceProps_body n = Derives b \<Longrightarrow> ArchDeviceProps n = ArchDeviceProps b"
  by (subst ArchDeviceProps.simps) simp

lemma ArchDeviceProps_aliases:
  "ArchDeviceProps 350 = (300, SM30)"
  "ArchDeviceProps 210 = (200, SM20)"
  "ArchDeviceProps 130 = (120, SM12)"
  "ArchDeviceProps 110 = (100, SM10)"
  by (simp_all add: ArchDeviceProps_derived ArchDeviceProps_body_def ArchDeviceProps_explicit)

lemma ArchDeviceProps_unknown:
  "n \<notin> {100, 110, 120, 130, 200, 210, 300, 350} \<Longrightarrow> ArchDeviceProps n = (100, SM10)"
  by (simp add: ArchDeviceProps_derived ArchDeviceProps_body_def ArchDeviceProps_explicit)

text \<open>
  The chain that starts at \<open>ArchDeviceProps<100>::Callback\<close>, unfolded: each link
  hands every \<open>sm_version\<close> above its own architecture to the next link.
\<close>

lemma Callback_100_cases:
  "Callback_100 op target v =
     (if v > 200 then op 300 [] target
      else if v > 120 then op 200 [] target
      else if v > 100 then op 120 [] target
      else op 100 [] target)"
  by (simp add: Callback_100_def Callback_120_def Callback_200_def Callback_300_def)

subsection \<open>Runtime resolution\<close>

text \<open>
  C1. The claim: every \<open>sm_version\<close> strictly between two consecutive base
  architectures is resolved to the lower one, so 150 is resolved to 120. The chain
  started at \<open>ArchDeviceProps<100>::Callback\<close> does otherwise: run on the logging
  target, it calls the target with \<open>ArchDeviceProps<200>\<close> for 150, and with
  \<open>ArchDeviceProps<300>\<close> for 210, although \<open>ArchDeviceProps<210>\<close> is declared to
  derive from \<open>ArchDeviceProps<200>\<close>.
\<close>

theorem Callback_between_bases_selects_upper:
  "Callback_100 record_call [] 150 = [(200, [])]
   \<and> Callback_100 record_call [] 210 = [(300, [])]
   \<and> ArchDeviceProps 210 = ArchDeviceProps 200"
  by (simp add: Callback_100_cases record_call_def ArchDeviceProps_aliases
      ArchDeviceProps_explicit)

text \<open>
  C2. An \<open>sm_version\<close> below 100 makes the chain call the target with
  \<open>ArchDeviceProps<100>\<close>, and an \<open>sm_version\<close> above 300 makes it call the target
  with \<open>ArchDeviceProps<300>\<close>. Both are ordinary results of a total function: there
  is no error value.
\<close>

theorem Callback_out_of_range:
  "(v < 100 \<longrightarrow> Callback_100 op target v = op 100 [] target)
   \<and> (300 < v \<longrightarrow> Callback_100 op target v = op 300 [] target)"
  by (simp add: Callback_100_cases)

theorem Callback_out_of_range_witness:
  "(50::int) < 100 \<and> Callback_100 record_call [] 50 = [(100, [])]
   \<and> (300::int) < 305 \<and> Callback_100 record_call [] 305 = [(300, [])]"
  using Callback_out_of_range [of 50 record_call "[]"]
    Callback_out_of_range [of 305 record_call "[]"]
  by (simp add: record_call_def)

text \<open>
  C3. For each of the base architectures 100, 120, 200 and 300, used as
  \<open>sm_version\<close>, the chain calls the target with exactly the specialisation of that
  architecture, which is a specialisation with a body of its own.
\<close>

theorem Callback_exact_base:
  "v \<in> {100, 120, 200, 300} \<Longrightarrow>
     Callback_100 op target v = op v [] target \<and> fst (ArchDeviceProps v) = v"
  by (auto simp add: Callback_100_cases ArchDeviceProps_explicit)

theorem Callback_exact_base_witness:
  "(200::int) \<in> {100, 120, 200, 300}
   \<and> Callback_100 record_call [] 200 = [(200, [])] \<and> fst (ArchDeviceProps 200) = 200"
  using Callback_exact_base [of 200 record_call "[]"]
  by (simp add: record_call_def)

text \<open>
  C4. The claim: an \<open>sm_version\<close> equal to one of the derived architectures 110, 130,
  210 and 350 is resolved to the architecture it derives from, so 110 is resolved to
  100. The code resolves 110 to 120, 130 to 200 and 210 to 300 (only 350 reaches its
  base, 300), both from \<open>ArchDeviceProps<100>::Callback\<close> and from the \<open>Callback\<close>
  that \<open>ArchDeviceProps<110>\<close> inherits, while the members of
  \<open>ArchDeviceProps<110>\<close> are those of \<open>ArchDeviceProps<100>\<close>.
\<close>

theorem Callback_alias_selects_next_base:
  "Callback_100 record_call [] 110 = [(120, [])]
   \<and> Callback 110 record_call [] 110 = [(120, [])]
   \<and> ArchDeviceProps 110 = (100, SM10)
   \<and> Callback_100 record_call [] 130 = [(200, [])]
   \<and> Callback_100 record_call [] 210 = [(300, [])]
   \<and> Callback_100 record_call [] 350 = [(300, [])]"
  by (simp add: Callback_def Callback_100_cases record_call_def ArchDeviceProps_aliases)

text \<open>
  C5. The chain is a total function of \<open>sm_version\<close>. Whatever the value, the logging
  target has exactly one new entry after the call, and there is one architecture such
  that, for every target and every target callback, the result of the chain is the
  result of a single call of the callback on the target it was given.
\<close>

theorem Callback_invokes_exactly_once:
  "(\<exists>!c. Callback_100 record_call log v = log @ [c])
   \<and> length (Callback_100 record_call log v) = Suc (length log)
   \<and> (\<exists>P. \<forall>(op :: 't target_callback) target. Callback_100 op target v = op P [] target)"
  by (auto simp add: Callback_100_cases record_call_def)

text \<open>
  C8, as the claim states it (the operation receives the runtime identifier together
  with the profile), fails: for \<open>sm_version = 305\<close> the logging target records the
  template argument 300 and an empty argument list, not the argument 305.
\<close>

theorem Callback_passes_sm_version_counterexample:
  "Callback_100 record_call [] 305 = [(300, [])]
   \<and> Callback_100 record_call [] 305 \<noteq> [(300, [305])]"
  by (simp add: Callback_100_cases record_call_def)

text \<open>
  C8, amended. For every \<open>sm_version\<close> the chain calls the target callback with a
  specialisation that has enumerators of its own as the template argument and with an
  empty list of function arguments: \<open>sm_version\<close> is not handed to the operation.
\<close>

theorem Callback_passes_only_the_profile:
  "\<exists>P props. ArchDeviceProps_body P = Members props
     \<and> (\<forall>(op :: 't target_callback) target. Callback_100 op target v = op P [] target)"
proof -
  consider "v > 200" | "v > 120" "v \<le> 200" | "v > 100" "v \<le> 120" | "v \<le> 100"
    by linarith
  then show ?thesis
  proof cases
    case 1
    then have "\<forall>(op :: 't target_callback) target. Callback_100 op target v = op 300 [] target"
      by (simp add: Callback_100_cases)
    moreover have "ArchDeviceProps_body 300 = Members SM30"
      by (simp add: ArchDeviceProps_body_def)
    ultimately show ?thesis by blast
  next
    case 2
    then have "\<forall>(op :: 't target_callback) target. Callback_100 op target v = op 200 [] target"
      by (simp add: Callback_100_cases)
    moreover have "ArchDeviceProps_body 200 = Members SM20"
      by (simp add: ArchDeviceProps_body_def)
    ultimately show ?thesis by blast
  next
    case 3
    then have "\<forall>(op :: 't target_callback) target. Callback_100 op target v = op 120 [] target"
      by (simp add: Callback_100_cases)
    moreover have "ArchDeviceProps_body 120 = Members SM12"
      by (simp add: ArchDeviceProps_body_def)
    ultimately show ?thesis by blast
  next
    case 4
    then have "\<forall>(op :: 't target_callback) target. Callback_100 op target v = op 100 [] target"
      by (simp add: Callback_100_cases)
    moreover have "ArchDeviceProps_body 100 = Members SM10"
      by (simp add: ArchDeviceProps_body_def)
    ultimately show ?thesis by blast
  qed
qed

subsection \<open>Compile-time selection\<close>

text \<open>
  C6. \<open>PtxDeviceProps\<close> has the members of \<open>ArchDeviceProps<100>\<close> when
  \<open>CUB_PTX_ARCH\<close> is 0 or is none of the eight declared architectures; when it is a
  base architecture or an architecture derived from one, \<open>PtxDeviceProps\<close> has the
  members of that base.
\<close>

theorem PtxDeviceProps_selection:
  "(CUB_PTX_ARCH a = 0 \<or> CUB_PTX_ARCH a \<notin> {100, 110, 120, 130, 200, 210, 300, 350}
      \<longrightarrow> PtxDeviceProps a = (100, SM10))
   \<and> (CUB_PTX_ARCH a = 100 \<or> CUB_PTX_ARCH a = 110 \<longrightarrow> PtxDeviceProps a = (100, SM10))
   \<and> (CUB_PTX_ARCH a = 120 \<or> CUB_PTX_ARCH a = 130 \<longrightarrow> PtxDeviceProps a = (120, SM12))
   \<and> (CUB_PTX_ARCH a = 200 \<or> CUB_PTX_ARCH a = 210 \<longrightarrow> PtxDeviceProps a = (200, SM20))
   \<and> (CUB_PTX_ARCH a = 300 \<or> CUB_PTX_ARCH a = 350 \<longrightarrow> PtxDeviceProps a = (300, SM30))"
  unfolding PtxDeviceProps_def
  by (auto simp add: ArchDeviceProps_explicit ArchDeviceProps_aliases ArchDeviceProps_unknown)

theorem PtxDeviceProps_selection_witness:
  "CUB_PTX_ARCH None = 0 \<and> PtxDeviceProps None = (100, SM10)
   \<and> CUB_PTX_ARCH (Some 520) \<notin> {100, 110, 120, 130, 200, 210, 300, 350}
   \<and> PtxDeviceProps (Some 520) = (100, SM10)
   \<and> CUB_PTX_ARCH (Some 110) = 110 \<and> PtxDeviceProps (Some 110) = (100, SM10)
   \<and> CUB_PTX_ARCH (Some 130) = 130 \<and> PtxDeviceProps (Some 130) = (120, SM12)
   \<and> CUB_PTX_ARCH (Some 200) = 200 \<and> PtxDeviceProps (Some 200) = (200, SM20)
   \<and> CUB_PTX_ARCH (Some 350) = 350 \<and> PtxDeviceProps (Some 350) = (300, SM30)"
  using PtxDeviceProps_selection [of None] PtxDeviceProps_selection [of "Some 520"]
    PtxDeviceProps_selection [of "Some 110"] PtxDeviceProps_selection [of "Some 130"]
    PtxDeviceProps_selection [of "Some 200"] PtxDeviceProps_selection [of "Some 350"]
  by (simp add: CUB_PTX_ARCH_def)

text \<open>
  C10. \<open>CNP_ENABLED\<close> is true exactly when \<open>CUB_PTX_ARCH\<close> is 0 or at least 350: it
  is true in the host pass, and false in a device pass for an architecture other than 0
  below 350.
\<close>

theorem CNP_ENABLED_iff:
  "(CNP_ENABLED a \<longleftrightarrow> CUB_PTX_ARCH a = 0 \<or> 350 \<le> CUB_PTX_ARCH a)
   \<and> CNP_ENABLED None
   \<and> (350 \<le> t \<longrightarrow> CNP_ENABLED (Some t))
   \<and> (t \<noteq> 0 \<and> t < 350 \<longrightarrow> \<not> CNP_ENABLED (Some t))"
  by (auto simp add: CNP_ENABLED_def CUB_PTX_ARCH_def)

theorem CNP_ENABLED_iff_witness:
  "(350::int) \<le> 350 \<and> CNP_ENABLED (Some 350)
   \<and> (300::int) \<noteq> 0 \<and> (300::int) < 350 \<and> \<not> CNP_ENABLED (Some 300)"
  using CNP_ENABLED_iff [of None 350] CNP_ENABLED_iff [of None 300]
  by simp

subsection \<open>The table of enumerators\<close>

text \<open>
  C7. For each derived architecture (350 from 300, 210 from 200, 130 from 120, 110 from
  100), member lookup gives the record of enumerators of the base: the two records are
  equal, that is, equal in every field.
\<close>

theorem ArchDeviceProps_alias_fields:
  "snd (ArchDeviceProps 350) = snd (ArchDeviceProps 300)
   \<and> snd (ArchDeviceProps 210) = snd (ArchDeviceProps 200)
   \<and> snd (ArchDeviceProps 130) = snd (ArchDeviceProps 120)
   \<and> snd (ArchDeviceProps 110) = snd (ArchDeviceProps 100)"
  by (simp add: ArchDeviceProps_aliases ArchDeviceProps_explicit)

text \<open>
  C9. For two base architectures \<open>A < B\<close> among 100, 120, 200 and 300, each capacity
  enumerator of \<open>B\<close> (shared memory bytes, bank count, warp size, threads per SM,
  threadblocks per SM, threads per threadblock, registers per SM) is at least that of
  \<open>A\<close>.
\<close>

theorem ArchDeviceProps_capacity_mono:
  "A \<in> {100, 120, 200, 300} \<Longrightarrow> B \<in> {100, 120, 200, 300} \<Longrightarrow> A < B \<Longrightarrow>
     SMEM_BYTES (snd (ArchDeviceProps A)) \<le> SMEM_BYTES (snd (ArchDeviceProps B))
   \<and> SMEM_BANKS (snd (ArchDeviceProps A)) \<le> SMEM_BANKS (snd (ArchDeviceProps B))
   \<and> WARP_THREADS (snd (ArchDeviceProps A)) \<le> WARP_THREADS (snd (ArchDeviceProps B))
   \<and> MAX_SM_THREADS (snd (ArchDeviceProps A)) \<le> MAX_SM_THREADS (snd (ArchDeviceProps B))
   \<and> MAX_SM_THREADBLOCKS (snd (ArchDeviceProps A))
       \<le> MAX_SM_THREADBLOCKS (snd (ArchDeviceProps B))
   \<and> MAX_BLOCK_THREADS (snd (ArchDeviceProps A)) \<le> MAX_BLOCK_THREADS (snd (ArchDeviceProps B))
   \<and> MAX_SM_REGISTERS (snd (ArchDeviceProps A)) \<le> MAX_SM_REGISTERS (snd (ArchDeviceProps B))"
  by (auto simp add: ArchDeviceProps_explicit SM10_def SM12_def SM20_def SM30_def Let_def)

theorem ArchDeviceProps_capacity_mono_witness:
  "(100::int) \<in> {100, 120, 200, 300} \<and> (300::int) \<in> {100, 120, 200, 300} \<and> (100::int) < 300
   \<and> SMEM_BYTES (snd (ArchDeviceProps 100)) \<le> SMEM_BYTES (snd (ArchDeviceProps 300))
   \<and> SMEM_BANKS (snd (ArchDeviceProps 100)) \<le> SMEM_BANKS (snd (ArchDeviceProps 300))
   \<and> WARP_THREADS (snd (ArchDeviceProps 100)) \<le> WARP_THREADS (snd (ArchDeviceProps 300))
   \<and> MAX_SM_THREADS (snd (ArchDeviceProps 100)) \<le> MAX_SM_THREADS (snd (ArchDeviceProps 300))
   \<and> MAX_SM_THREADBLOCKS (snd (ArchDeviceProps 100))
       \<le> MAX_SM_THREADBLOCKS (snd (ArchDeviceProps 300))
   \<and> MAX_BLOCK_THREADS (snd (ArchDeviceProps 100))
       \<le> MAX_BLOCK_THREADS (snd (ArchDeviceProps 300))
   \<and> MAX_SM_REGISTERS (snd (ArchDeviceProps 100)) \<le> MAX_SM_REGISTERS (snd (ArchDeviceProps 300))"
  using ArchDeviceProps_capacity_mono [of 100 300]
  by simp

end
